theory Spec2Isabelle
  imports Main "HOL-Library.List_Lexorder" "HOL-Library.Char_ord"
begin

section \<open>Data model\<close>

text \<open>
  The programs are Streamlit scripts over pandas data frames. A column (a pandas
  \<^verbatim>\<open>Series\<close>) is modelled by its storage dtype and its cells in row order; a missing
  cell (NaN, None, NaT) is \<open>None\<close>. The cell values are of an arbitrary type \<open>'a\<close> whose
  HOL equality stands for Python equality of the values.

  The dtypes are those the loaders of the scripts produce (\<^verbatim>\<open>read_csv\<close>,
  \<^verbatim>\<open>read_excel\<close>, \<^verbatim>\<open>read_json\<close>, \<^verbatim>\<open>read_html\<close>).
\<close>

datatype np_dtype = int64 | float64 | bool | datetime64 | object

record 'a series =
  dtype :: np_dtype
  cells :: "'a option list"

text \<open>Exceptions of Python and pandas that the modelled code can meet.\<close>

datatype py_error = ValueError | IndexError | KeyError | ParserError

text \<open>
  The strings returned by \<^verbatim>\<open>suggest_dtype\<close>: \<^verbatim>\<open>"int64"\<close> is \<open>Integer\<close>,
  \<^verbatim>\<open>"float64"\<close> is \<open>Float\<close>, \<^verbatim>\<open>"datetime64[ns]"\<close> is \<open>Timestamp\<close>, \<^verbatim>\<open>"bool"\<close> is
  \<open>Boolean\<close>, \<^verbatim>\<open>"category"\<close> is \<open>Category\<close> and \<^verbatim>\<open>"object"\<close> is \<open>Text\<close>.
\<close>

datatype semantic_type = Integer | Float | Timestamp | Boolean | Category | Text

section \<open>pandas primitives used by the scripts\<close>

text \<open>\<^verbatim>\<open>Series.dropna()\<close>: the non-missing values, in row order.\<close>

definition dropna :: "'a option list \<Rightarrow> 'a list" where
  "dropna cs = map the (filter (\<lambda>c. c \<noteq> None) cs)"

text \<open>\<^verbatim>\<open>Series.isnull().any()\<close>.\<close>

definition has_null :: "'a option list \<Rightarrow> bool" where
  "has_null cs = (None \<in> set cs)"

text \<open>\<^verbatim>\<open>Series.fillna(v)\<close>, where the fill value \<open>w\<close> may itself be the missing marker
  (filling with NaN changes nothing).\<close>

definition fillna :: "'a option \<Rightarrow> 'a option list \<Rightarrow> 'a option list" where
  "fillna w cs = map (\<lambda>c. case c of None \<Rightarrow> w | Some v \<Rightarrow> Some v) cs"

text \<open>\<^verbatim>\<open>Series.nunique()\<close>: the number of distinct non-missing values.\<close>

definition nunique :: "'a option list \<Rightarrow> nat" where
  "nunique cs = length (remdups (dropna cs))"

text \<open>
  \<^verbatim>\<open>pd.api.types.is_numeric_dtype\<close> accepts every numpy number type and also the
  boolean type; \<^verbatim>\<open>is_integer_dtype\<close> accepts the integer types only.
\<close>

definition is_numeric_dtype :: "np_dtype \<Rightarrow> bool" where
  "is_numeric_dtype d = (d = int64 \<or> d = float64 \<or> d = bool)"

definition is_integer_dtype :: "np_dtype \<Rightarrow> bool" where
  "is_integer_dtype d = (d = int64)"

definition is_datetime64_any_dtype :: "np_dtype \<Rightarrow> bool" where
  "is_datetime64_any_dtype d = (d = datetime64)"

definition is_bool_dtype :: "np_dtype \<Rightarrow> bool" where
  "is_bool_dtype d = (d = bool)"

text \<open>
  \<^verbatim>\<open>Series.sample(n)\<close> draws \<open>n\<close> positions without replacement and raises
  \<^verbatim>\<open>ValueError\<close> when \<open>n\<close> exceeds the population. The positions come from numpy's
  generator, which is the parameter \<open>choice\<close>: \<open>choice m n\<close> is the list of positions
  drawn from \<open>0..<m\<close> under the seed in force. The input list is not changed: the sample
  is a new list.
\<close>

definition sample :: "(nat \<Rightarrow> nat \<Rightarrow> nat list) \<Rightarrow> 'a list \<Rightarrow> nat \<Rightarrow> py_error + 'a list" where
  "sample choice xs n =
     (if length xs < n then Inl ValueError
      else Inr (map (\<lambda>i. xs ! i) (choice (length xs) n)))"

text \<open>What a well-behaved generator returns: \<open>n\<close> distinct positions below \<open>m\<close>.\<close>

definition choice_ok :: "(nat \<Rightarrow> nat \<Rightarrow> nat list) \<Rightarrow> bool" where
  "choice_ok choice =
     (\<forall>m n. n \<le> m \<longrightarrow>
        length (choice m n) = n \<and> distinct (choice m n) \<and> (\<forall>i \<in> set (choice m n). i < m))"

subsection \<open>String methods\<close>

text \<open>
  A \<open>char\<close> stands for the Unicode code point of its number, so that text is a Python
  string whose code points are all below 256 (ASCII and Latin-1); strings with other
  code points are outside the model. Among these code points \<^verbatim>\<open>str.isnumeric()\<close>
  accepts the decimal digits \<open>0..9\<close> (48 to 57), the superscripts two, three and one (178,
  179, 185) and the fractions one quarter, one half and three quarters (188, 189, 190).
  It holds of a string when the string is not empty and all its characters are accepted.
\<close>

definition is_numeric_char :: "char \<Rightarrow> bool" where
  "is_numeric_char c =
     (let n = (of_char c :: nat)
      in (48 \<le> n \<and> n \<le> 57) \<or> n = 178 \<or> n = 179 \<or> n = 185 \<or> n = 188 \<or> n = 189 \<or> n = 190)"

definition isnumeric :: "string \<Rightarrow> bool" where
  "isnumeric s = (s \<noteq> [] \<and> list_all is_numeric_char s)"

text \<open>\<^verbatim>\<open>str.replace(".", "", 1)\<close>: the first full stop is removed.\<close>

fun replace_dot_once :: "string \<Rightarrow> string" where
  "replace_dot_once [] = []"
| "replace_dot_once (c # cs) = (if c = CHR ''.'' then cs else c # replace_dot_once cs)"

text \<open>
  \<^verbatim>\<open>str.lower()\<close> on these code points maps \<open>A..Z\<close> (65 to 90) to \<open>a..z\<close> and the
  Latin-1 capitals (192 to 222, the multiplication sign 215 excepted) to their small
  letters, 32 further on; every other code point below 256 is left as it is.
\<close>

definition lower_char :: "char \<Rightarrow> char" where
  "lower_char c =
     (let n = (of_char c :: nat)
      in if (65 \<le> n \<and> n \<le> 90) \<or> (192 \<le> n \<and> n \<le> 222 \<and> n \<noteq> 215)
         then char_of (n + 32) else c)"

definition lower :: "string \<Rightarrow> string" where
  "lower s = map lower_char s"

definition bool_words :: "string list" where
  "bool_words = [''true'', ''false'', ''yes'', ''no'', ''0'', ''1'']"

section \<open>Type inference: \<^verbatim>\<open>suggest_dtype\<close> (test_code4.py)\<close>

text \<open>
  The body of the \<^verbatim>\<open>try\<close>:
  \<^verbatim>\<open>pd.to_datetime(series.dropna().sample(min(50, len(series))), errors="raise")\<close>.
  The sample size is computed from the length of the whole column, missing cells
  included, while the population is the column without them. The parser of pandas is the
  parameter \<open>to_datetime\<close>: it holds of a list of values when parsing it raises nothing.
\<close>

definition try_datetime ::
  "(nat \<Rightarrow> nat \<Rightarrow> nat list) \<Rightarrow> ('a list \<Rightarrow> bool) \<Rightarrow> 'a series \<Rightarrow> py_error + 'a list" where
  "try_datetime choice to_datetime s =
     (case sample choice (dropna (cells s)) (min 50 (length (cells s))) of
        Inl e \<Rightarrow> Inl e
      | Inr smp \<Rightarrow> if to_datetime smp then Inr smp else Inl ParserError)"

text \<open>
  \<^verbatim>\<open>series.dropna().astype(str).str.replace(".", "", 1).str.isnumeric().all()\<close>, with
  \<open>str_of\<close> for Python's \<^verbatim>\<open>str\<close> of a cell value.
\<close>

definition all_numeric :: "('a \<Rightarrow> string) \<Rightarrow> 'a series \<Rightarrow> bool" where
  "all_numeric str_of s =
     list_all (\<lambda>v. isnumeric (replace_dot_once (str_of v))) (dropna (cells s))"

text \<open>\<^verbatim>\<open>series.dropna().astype(str).str.lower().isin([...]).all()\<close>.\<close>

definition all_boolean :: "('a \<Rightarrow> string) \<Rightarrow> 'a series \<Rightarrow> bool" where
  "all_boolean str_of s =
     list_all (\<lambda>v. lower (str_of v) \<in> set bool_words) (dropna (cells s))"

text \<open>
  \<^verbatim>\<open>series.nunique() < (0.05 * len(series))\<close>. The product is a double; \<open>0.05\<close> is
  the double \<open>1/20 * (1 + 2^-54)\<close>, so for a length \<open>20 * k\<close> the exact product lies less
  than half a unit in the last place above \<open>k\<close> and rounds to \<open>k\<close>, and for any other
  length below \<open>2^50\<close> the product is farther from every integer than the rounding error.
  The comparison is therefore the one of the exact numbers: \<open>20 * nunique < len\<close>. There
  is no division.
\<close>

definition category_rule :: "'a series \<Rightarrow> bool" where
  "category_rule s = (20 * nunique (cells s) < length (cells s))"

text \<open>
  \<^verbatim>\<open>suggest_dtype\<close>. The result is the returned string, or the exception that leaves
  the function. The handler \<^verbatim>\<open>except Exception: pass\<close> takes every exception of the
  \<^verbatim>\<open>try\<close> and lets the rules below it run.
\<close>

definition suggest_dtype ::
  "(nat \<Rightarrow> nat \<Rightarrow> nat list) \<Rightarrow> ('a list \<Rightarrow> bool) \<Rightarrow> ('a \<Rightarrow> string) \<Rightarrow> 'a series
     \<Rightarrow> py_error + semantic_type" where
  "suggest_dtype choice to_datetime str_of s =
     (if is_numeric_dtype (dtype s) then
        Inr (if is_integer_dtype (dtype s) then Integer else Float)
      else if is_datetime64_any_dtype (dtype s) then Inr Timestamp
      else if is_bool_dtype (dtype s) then Inr Boolean
      else
        (case try_datetime choice to_datetime s of
           Inr _ \<Rightarrow> Inr Timestamp
         | Inl _ \<Rightarrow>
             if all_numeric str_of s then Inr Float
             else if all_boolean str_of s then Inr Boolean
             else if category_rule s then Inr Category
             else Inr Text))"

section \<open>Data frames\<close>

text \<open>
  A data frame is the list of its columns, each with its label, in column order. The
  labels are taken to be distinct, so that \<^verbatim>\<open>df[col]\<close> is one column and a loop over
  \<^verbatim>\<open>df.columns\<close> that assigns \<^verbatim>\<open>df[col]\<close> is a map over the columns. All columns of a
  frame have the same length. The row index of pandas is not modelled: the
  scripts address rows by position only.
\<close>

type_synonym 'a frame = "(string \<times> 'a series) list"

definition nrows :: "'a frame \<Rightarrow> nat" where
  "nrows df = (case df of [] \<Rightarrow> 0 | c # _ \<Rightarrow> length (cells (snd c)))"

definition row :: "'a frame \<Rightarrow> nat \<Rightarrow> 'a option list" where
  "row df i = map (\<lambda>c. cells (snd c) ! i) df"

definition rows :: "'a frame \<Rightarrow> 'a option list list" where
  "rows df = map (row df) [0..<nrows df]"

text \<open>The frame of the rows at the given positions, in that order.\<close>

definition take_rows :: "nat list \<Rightarrow> 'a frame \<Rightarrow> 'a frame" where
  "take_rows idxs df =
     map (\<lambda>c. (fst c, (snd c)\<lparr>cells := map (\<lambda>i. cells (snd c) ! i) idxs\<rparr>)) df"

text \<open>Apply a function to the cells of every column that satisfies \<open>P\<close>.\<close>

definition map_columns ::
  "(string \<times> 'a series \<Rightarrow> bool) \<Rightarrow> ('a series \<Rightarrow> 'a series) \<Rightarrow> 'a frame \<Rightarrow> 'a frame" where
  "map_columns P f df = map (\<lambda>c. if P c then (fst c, f (snd c)) else c) df"

text \<open>\<^verbatim>\<open>df.dropna(how="any")\<close> and \<^verbatim>\<open>df.dropna(how="all")\<close>.\<close>

definition dropna_any :: "'a frame \<Rightarrow> 'a frame" where
  "dropna_any df = take_rows (filter (\<lambda>i. None \<notin> set (row df i)) [0..<nrows df]) df"

definition dropna_all :: "'a frame \<Rightarrow> 'a frame" where
  "dropna_all df =
     take_rows (filter (\<lambda>i. \<exists>c \<in> set (row df i). c \<noteq> None) [0..<nrows df]) df"

text \<open>\<^verbatim>\<open>ffill\<close> and \<^verbatim>\<open>bfill\<close> of one column: \<open>prev\<close> is the last valid value seen.\<close>

fun ffill_from :: "'a option \<Rightarrow> 'a option list \<Rightarrow> 'a option list" where
  "ffill_from prev [] = []"
| "ffill_from prev (None # cs) = prev # ffill_from prev cs"
| "ffill_from prev (Some v # cs) = Some v # ffill_from (Some v) cs"

definition ffill :: "'a option list \<Rightarrow> 'a option list" where
  "ffill cs = ffill_from None cs"

definition bfill :: "'a option list \<Rightarrow> 'a option list" where
  "bfill cs = rev (ffill_from None (rev cs))"

text \<open>
  \<^verbatim>\<open>Series.mode()\<close>: the most frequent non-missing values, sorted; \<^verbatim>\<open>mode()[0]\<close> is
  the least of them and raises \<^verbatim>\<open>KeyError\<close> when there is none.
\<close>

definition mode :: "'a::linorder list \<Rightarrow> 'a list" where
  "mode xs =
     (let top = fold max (map (count_list xs) xs) 0
      in sort (filter (\<lambda>v. count_list xs v = top) (remdups xs)))"

definition first_mode :: "'a::linorder list \<Rightarrow> py_error + 'a" where
  "first_mode xs = (case mode xs of [] \<Rightarrow> Inl KeyError | m # _ \<Rightarrow> Inr m)"

text \<open>
  What the scripts take from Python, numpy and pandas and the model takes as parameters:
  the mean and the median of the non-missing values of a numeric column (\<open>None\<close> is NaN,
  the result on no values); the constructor call \<^verbatim>\<open>type(v)(text)\<close>, which raises or
  returns a value that may be a missing marker (\<^verbatim>\<open>float("nan")\<close>); the cell value that
  holds a piece of raw text; and the dtype pandas gives a column whose cells have been
  filled, from its dtype before and its cells after (text filled into a typed column
  makes it \<^verbatim>\<open>object\<close>; some versions of pandas narrow a filled \<^verbatim>\<open>object\<close> column).
\<close>

record 'a library =
  mean :: "'a list \<Rightarrow> 'a option"
  median :: "'a list \<Rightarrow> 'a option"
  construct :: "'a \<Rightarrow> string \<Rightarrow> py_error + 'a option"
  raw_text :: "string \<Rightarrow> 'a"
  dtype_after_fill :: "np_dtype \<Rightarrow> 'a option list \<Rightarrow> np_dtype"

text \<open>The column that a fill returns: the new cells, with the dtype pandas gives them.\<close>

definition filled :: "'a library \<Rightarrow> 'a option list \<Rightarrow> 'a series \<Rightarrow> 'a series" where
  "filled lib cs s = s\<lparr>dtype := dtype_after_fill lib (dtype s) cs, cells := cs\<rparr>"

text \<open>
  The body of the loop of "Fill with column mode (all types)":
  \<^verbatim>\<open>if df[col].isnull().any(): try: df[col] = df[col].fillna(df[col].mode()[0])
  except Exception: pass\<close>.
\<close>

definition fill_mode_col :: "'a::linorder library \<Rightarrow> 'a series \<Rightarrow> 'a series" where
  "fill_mode_col lib s =
     (if has_null (cells s) then
        (case first_mode (dropna (cells s)) of
           Inr m \<Rightarrow> filled lib (fillna (Some m) (cells s)) s
         | Inl _ \<Rightarrow> s)
      else s)"

text \<open>\<^verbatim>\<open>df[col].dropna().iloc[0]\<close>.\<close>

definition first_valid :: "'a option list \<Rightarrow> py_error + 'a" where
  "first_valid cs = (case dropna cs of [] \<Rightarrow> Inl IndexError | v # _ \<Rightarrow> Inr v)"

text \<open>
  The body of the loop of "Custom fill per column":
  \<^verbatim>\<open>try: df[col] = df[col].fillna(type(df[col].dropna().iloc[0])(replacement))
  except Exception: df[col] = df[col].fillna(replacement)\<close>.
  The cell values are scalars (text, numbers, booleans, timestamps), which \<^verbatim>\<open>fillna\<close>
  accepts as fill values.
\<close>

definition custom_fill_col :: "'a library \<Rightarrow> string \<Rightarrow> 'a series \<Rightarrow> 'a series" where
  "custom_fill_col lib replacement s =
     (case (case first_valid (cells s) of
              Inl e \<Rightarrow> Inl e
            | Inr v \<Rightarrow> construct lib v replacement) of
        Inr w \<Rightarrow> filled lib (fillna w (cells s)) s
      | Inl _ \<Rightarrow> filled lib (fillna (Some (raw_text lib replacement)) (cells s)) s)"

text \<open>\<^verbatim>\<open>df.select_dtypes(include=["number"])\<close> keeps the integer and float columns.\<close>

definition is_number :: "np_dtype \<Rightarrow> bool" where
  "is_number d = (d = int64 \<or> d = float64)"

section \<open>The cleaning step of test_code4.py\<close>

text \<open>
  The choices of the two select boxes. For "Custom fill per column" the strategy carries
  what the user typed for each column label and whether "Apply Custom Fill" was pressed;
  for the subset strategy it carries the labels chosen in the multiselect.
\<close>

datatype null_strategy =
    DoNothing | DropAnyNull | DropAllNull | FillMean | FillMedian | FillMode
  | ForwardFill | BackwardFill | CustomFill "string \<Rightarrow> string" bool

datatype dup_strategy = KeepAll | DropKeepFirst | DropKeepLast | DropOnSubset "string list"

definition apply_null ::
  "'a::linorder library \<Rightarrow> null_strategy \<Rightarrow> 'a frame \<Rightarrow> 'a frame" where
  "apply_null lib ns df =
     (case ns of
        DoNothing \<Rightarrow> df
      | DropAnyNull \<Rightarrow> dropna_any df
      | DropAllNull \<Rightarrow> dropna_all df
      | FillMean \<Rightarrow>
          map_columns (\<lambda>c. is_number (dtype (snd c)))
            (\<lambda>s. filled lib (fillna (mean lib (dropna (cells s))) (cells s)) s) df
      | FillMedian \<Rightarrow>
          map_columns (\<lambda>c. is_number (dtype (snd c)))
            (\<lambda>s. filled lib (fillna (median lib (dropna (cells s))) (cells s)) s) df
      | FillMode \<Rightarrow> map_columns (\<lambda>c. True) (fill_mode_col lib) df
      | ForwardFill \<Rightarrow> map_columns (\<lambda>c. True) (\<lambda>s. filled lib (ffill (cells s)) s) df
      | BackwardFill \<Rightarrow> map_columns (\<lambda>c. True) (\<lambda>s. filled lib (bfill (cells s)) s) df
      | CustomFill typed pressed \<Rightarrow>
          (if pressed then
             map (\<lambda>c. if has_null (cells (snd c)) \<and> typed (fst c) \<noteq> []
                       then (fst c, custom_fill_col lib (typed (fst c)) (snd c)) else c) df
           else df))"

text \<open>
  \<^verbatim>\<open>df.drop_duplicates(subset=..., keep=...)\<close>: two rows are duplicates when they agree
  on the compared columns, two missing cells counting as equal. Without a subset all
  columns are compared.
\<close>

definition compared :: "string list option \<Rightarrow> 'a frame \<Rightarrow> 'a frame" where
  "compared sub df =
     (case sub of None \<Rightarrow> df | Some cols \<Rightarrow> filter (\<lambda>c. fst c \<in> set cols) df)"

definition drop_duplicates_first :: "string list option \<Rightarrow> 'a frame \<Rightarrow> 'a frame" where
  "drop_duplicates_first sub df =
     take_rows
       (filter (\<lambda>i. \<forall>j \<in> set [0..<i]. row (compared sub df) j \<noteq> row (compared sub df) i)
          [0..<nrows df]) df"

definition drop_duplicates_last :: "string list option \<Rightarrow> 'a frame \<Rightarrow> 'a frame" where
  "drop_duplicates_last sub df =
     take_rows
       (filter (\<lambda>i. \<forall>j \<in> set [Suc i..<nrows df].
                  row (compared sub df) j \<noteq> row (compared sub df) i)
          [0..<nrows df]) df"

definition apply_dup :: "dup_strategy \<Rightarrow> 'a frame \<Rightarrow> 'a frame" where
  "apply_dup ds df =
     (case ds of
        KeepAll \<Rightarrow> df
      | DropKeepFirst \<Rightarrow> drop_duplicates_first None df
      | DropKeepLast \<Rightarrow> drop_duplicates_last None df
      | DropOnSubset subset_cols \<Rightarrow>
          (if subset_cols \<noteq> [] then drop_duplicates_first (Some subset_cols) df else df))"

text \<open>Step 3 of test_code4.py: the null handling, then the duplicate handling.\<close>

definition clean :: "'a::linorder library \<Rightarrow> null_strategy \<Rightarrow> dup_strategy \<Rightarrow> 'a frame \<Rightarrow> 'a frame" where
  "clean lib ns ds df = apply_dup ds (apply_null lib ns df)"

section \<open>The cleaning step of test_code2.py\<close>

text \<open>
  Here the duplicates come first, and each select box is shown only when there is
  something to handle: \<^verbatim>\<open>if df.duplicated().any()\<close>, then
  \<^verbatim>\<open>if df.isnull().sum().sum() > 0\<close>.
\<close>

datatype dup_action = DropDuplicates | RetainDuplicates

datatype null_choice = ForwardFill2 | BackwardFill2 | DropRows

definition any_duplicated :: "'a frame \<Rightarrow> bool" where
  "any_duplicated df = (\<not> distinct (rows df))"

definition any_null :: "'a frame \<Rightarrow> bool" where
  "any_null df = list_ex (\<lambda>c. has_null (cells (snd c))) df"

definition clean2 :: "'a library \<Rightarrow> dup_action \<Rightarrow> null_choice \<Rightarrow> 'a frame \<Rightarrow> 'a frame" where
  "clean2 lib da nc df =
     (let df1 = (if any_duplicated df then
                   (case da of
                      DropDuplicates \<Rightarrow> drop_duplicates_first None df
                    | RetainDuplicates \<Rightarrow> df)
                 else df)
      in if any_null df1 then
           (case nc of
              ForwardFill2 \<Rightarrow> map_columns (\<lambda>c. True) (\<lambda>s. filled lib (ffill (cells s)) s) df1
            | BackwardFill2 \<Rightarrow> map_columns (\<lambda>c. True) (\<lambda>s. filled lib (bfill (cells s)) s) df1
            | DropRows \<Rightarrow> dropna_any df1)
         else df1)"

section \<open>Charts\<close>

text \<open>
  The chart loop of test_code4.py (the same in test_code1.py and test_code2.py). A
  configuration is the dictionary built from four select boxes; the axis boxes offer
  \<^verbatim>\<open>["None"] + list(df.columns)\<close>.
\<close>

datatype chart_kind = Bar | Line | Scatter | Histogram | Box

record chart_config =
  chart_type :: chart_kind
  x_axis :: string
  y_axis :: string
  color_axis :: string

text \<open>The configuration for the options selected at the given positions.\<close>

definition make_config :: "string list \<Rightarrow> chart_kind \<Rightarrow> nat \<Rightarrow> nat \<Rightarrow> nat \<Rightarrow> chart_config" where
  "make_config columns t xi yi ci =
     \<lparr>chart_type = t,
      x_axis = (''None'' # columns) ! xi,
      y_axis = (''None'' # columns) ! yi,
      color_axis = (''None'' # columns) ! ci\<rparr>"

text \<open>
  What the loop does with one chart: the call of the plotting library for the kind
  (\<^verbatim>\<open>px.bar\<close>, \<^verbatim>\<open>px.line\<close>, \<^verbatim>\<open>px.scatter\<close>, \<^verbatim>\<open>px.histogram\<close>, \<^verbatim>\<open>px.box\<close>, all with
  \<^verbatim>\<open>x\<close>, \<^verbatim>\<open>y\<close> and \<^verbatim>\<open>color\<close>), or \<^verbatim>\<open>st.warning\<close> with the number of the chart.
\<close>

datatype chart_outcome = Plotted chart_kind string string "string option" | Warned nat

text \<open>The body of the loop for the chart at position \<open>k = i + j\<close>.\<close>

definition render_chart :: "nat \<Rightarrow> chart_config \<Rightarrow> chart_outcome" where
  "render_chart k config =
     (if x_axis config \<noteq> ''None'' \<and> y_axis config \<noteq> ''None'' then
        Plotted (chart_type config) (x_axis config) (y_axis config)
          (if color_axis config = ''None'' then None else Some (color_axis config))
      else Warned (k + 1))"

text \<open>The loop visits the positions in order; the rows of two are layout only.\<close>

definition render_charts :: "chart_config list \<Rightarrow> chart_outcome list" where
  "render_charts chart_configs =
     map (\<lambda>k. render_chart k (chart_configs ! k)) [0..<length chart_configs]"

text \<open>
  The histogram and the box plot of piping_data.py. Their select box offers the numeric
  columns only, and \<^verbatim>\<open>st.selectbox\<close> returns \<^verbatim>\<open>None\<close> when it has no options. The
  chart is drawn from whatever the box returned.
\<close>

definition selectbox :: "'a list \<Rightarrow> nat \<Rightarrow> 'a option" where
  "selectbox options i = (if options = [] then None else Some (options ! i))"

datatype px_call = PxHistogram "string option" | PxBox "string option"

definition plot_histogram :: "string list \<Rightarrow> nat \<Rightarrow> px_call" where
  "plot_histogram numeric_cols i = PxHistogram (selectbox numeric_cols i)"

definition plot_box :: "string list \<Rightarrow> nat \<Rightarrow> px_call" where
  "plot_box numeric_cols i = PxBox (selectbox numeric_cols i)"

section \<open>Properties of the type inference\<close>

lemmas dtype_tests =
  is_numeric_dtype_def is_integer_dtype_def is_datetime64_any_dtype_def is_bool_dtype_def

lemma suggest_dtype_object:
  "dtype s = object \<Longrightarrow>
   suggest_dtype choice to_datetime str_of s =
     (case try_datetime choice to_datetime s of
        Inr _ \<Rightarrow> Inr Timestamp
      | Inl _ \<Rightarrow> if all_numeric str_of s then Inr Float
                else if all_boolean str_of s then Inr Boolean
                else if category_rule s then Inr Category else Inr Text)"
  by (simp add: suggest_dtype_def dtype_tests)

lemma dropna_all_missing: "set cs \<subseteq> {None} \<Longrightarrow> dropna cs = []"
  by (auto simp add: dropna_def filter_empty_conv)

lemma set_dropna: "set (dropna cs) = {v. Some v \<in> set cs}"
  by (force simp add: dropna_def)

text \<open>
  Where no cell of a text column is missing, the sample has \<open>min 50 len\<close> values, all
  of them values of the column, and the suggestion is \<open>Timestamp\<close> exactly when the
  parser accepts the sample.
\<close>

lemma dropna_all_present: "\<not> has_null cs \<Longrightarrow> length (dropna cs) = length cs"
proof -
  assume "\<not> has_null cs"
  then have "filter (\<lambda>c. c \<noteq> None) cs = cs"
    by (simp add: has_null_def filter_id_conv) (metis option.exhaust)
  then show ?thesis by (simp add: dropna_def)
qed

lemma length_dropna_missing: "has_null cs \<Longrightarrow> length (dropna cs) < length cs"
  by (simp add: dropna_def has_null_def length_filter_less)

lemma sample_in_range:
  assumes "choice_ok choice" "n \<le> length xs"
  shows "\<exists>smp. sample choice xs n = Inr smp \<and> length smp = n \<and> set smp \<subseteq> set xs"
proof -
  from assms have "length (choice (length xs) n) = n \<and>
      (\<forall>i \<in> set (choice (length xs) n). i < length xs)"
    unfolding choice_ok_def by blast
  then have c: "length (choice (length xs) n) = n"
    "\<forall>i \<in> set (choice (length xs) n). i < length xs"
    by blast+
  have "sample choice xs n = Inr (map (\<lambda>i. xs ! i) (choice (length xs) n))"
    using assms(2) by (simp add: sample_def)
  moreover have "set (map (\<lambda>i. xs ! i) (choice (length xs) n)) \<subseteq> set xs"
    using c(2) by auto
  ultimately show ?thesis using c(1) by simp
qed

lemma timestamp_rule_all_present:
  assumes "choice_ok choice" "\<not> has_null (cells s)" "dtype s = object"
  shows "\<exists>smp. length smp = min 50 (length (cells s)) \<and> set smp \<subseteq> set (dropna (cells s)) \<and>
           (suggest_dtype choice to_datetime str_of s = Inr Timestamp \<longleftrightarrow> to_datetime smp)"
proof -
  have "min 50 (length (cells s)) \<le> length (dropna (cells s))"
    using assms(2) by (simp add: dropna_all_present)
  from sample_in_range [OF assms(1) this] obtain smp where
    smp: "sample choice (dropna (cells s)) (min 50 (length (cells s))) = Inr smp"
      "length smp = min 50 (length (cells s))" "set smp \<subseteq> set (dropna (cells s))"
    by blast
  have "suggest_dtype choice to_datetime str_of s = Inr Timestamp \<longleftrightarrow> to_datetime smp"
    using assms(3) smp(1)
    by (simp add: suggest_dtype_object try_datetime_def)
  with smp show ?thesis by blast
qed

text \<open>A draw of all positions is a permutation of them.\<close>

lemma full_draw_set:
  assumes "choice_ok choice"
  shows "set (map (\<lambda>i. xs ! i) (choice (length xs) (length xs))) = set xs"
proof -
  let ?l = "choice (length xs) (length xs)"
  from assms have "length ?l = length xs \<and> distinct ?l \<and> (\<forall>i \<in> set ?l. i < length xs)"
    unfolding choice_ok_def by blast
  then have l: "length ?l = length xs" "distinct ?l" "\<forall>i \<in> set ?l. i < length xs"
    by blast+
  then have "card (set ?l) = length xs" by (simp add: distinct_card)
  moreover have "set ?l \<subseteq> {..<length xs}" using l(3) by auto
  ultimately have "set ?l = {..<length xs}" by (simp add: card_subset_eq)
  then have "set (map (\<lambda>i. xs ! i) ?l) = (\<lambda>i. xs ! i) ` {..<length xs}" by simp
  also have "\<dots> = set xs" by (auto simp add: set_conv_nth)
  finally show ?thesis .
qed




text \<open>
  C2, as stated, fails: the text column \<^verbatim>\<open>["1", "2", "3"]\<close> has no fractional value, and
  the suggestion is \<open>Float\<close> when the timestamp parser refuses the sample and \<open>Timestamp\<close>
  when it accepts it; in neither case \<open>Integer\<close>.
\<close>

theorem numeric_strings_counterexample:
  "suggest_dtype (\<lambda>m n. [0..<n]) (\<lambda>xs. False) (\<lambda>x. x)
     \<lparr>dtype = object, cells = [Some ''1'', Some ''2'', Some ''3'']\<rparr> = Inr Float \<and>
   suggest_dtype (\<lambda>m n. [0..<n]) (\<lambda>xs. True) (\<lambda>x. x)
     \<lparr>dtype = object, cells = [Some ''1'', Some ''2'', Some ''3'']\<rparr> = Inr Timestamp"
  by (simp add: suggest_dtype_def dtype_tests try_datetime_def sample_def dropna_def
      all_numeric_def isnumeric_def is_numeric_char_def)

text \<open>
  C2, amended: \<open>Integer\<close> and \<open>Float\<close> are told apart by the stored dtype only: a column
  stored as \<^verbatim>\<open>int64\<close> is \<open>Integer\<close> and a column stored as \<^verbatim>\<open>float64\<close> is \<open>Float\<close>.
  A text column all of whose non-missing values are digit strings with at most one full
  stop is \<open>Float\<close>, with or without a fractional value, unless the timestamp attempt on
  the sample succeeds, and then it is \<open>Timestamp\<close>.
\<close>

theorem numeric_strings_float:
  "(dtype s = int64 \<longrightarrow> suggest_dtype choice to_datetime str_of s = Inr Integer) \<and>
   (dtype s = float64 \<longrightarrow> suggest_dtype choice to_datetime str_of s = Inr Float) \<and>
   (dtype s = object \<and> all_numeric str_of s \<longrightarrow>
      suggest_dtype choice to_datetime str_of s =
        (if isl (try_datetime choice to_datetime s) then Inr Float else Inr Timestamp))"
  by (auto simp add: suggest_dtype_def dtype_tests split: sum.splits)

text \<open>In the witness the cells of the two numeric columns are integers; their text is
  not looked at.\<close>

theorem numeric_strings_float_witness:
  "suggest_dtype (\<lambda>m n. [0..<n]) (\<lambda>xs. False) (\<lambda>i. ''?'')
     \<lparr>dtype = int64, cells = [Some (1 :: int), Some 2]\<rparr> = Inr Integer \<and>
   suggest_dtype (\<lambda>m n. [0..<n]) (\<lambda>xs. False) (\<lambda>i. ''?'')
     \<lparr>dtype = float64, cells = [Some (1 :: int), None]\<rparr> = Inr Float \<and>
   suggest_dtype (\<lambda>m n. [0..<n]) (\<lambda>xs. False) (\<lambda>x. x)
     \<lparr>dtype = object, cells = [Some ''1'', Some ''2'', Some ''3.5'']\<rparr> = Inr Float"
proof -
  let ?ch = "\<lambda>(m :: nat) n. [0..<n]"
  let ?t = "\<lparr>dtype = object, cells = [Some ''1'', Some ''2'', Some ''3.5'']\<rparr>"
  have num: "all_numeric (\<lambda>x. x) ?t"
    by (simp add: all_numeric_def dropna_def isnumeric_def is_numeric_char_def)
  have fails: "isl (try_datetime ?ch (\<lambda>xs. False) ?t)"
    by (simp add: try_datetime_def sample_def dropna_def)
  show ?thesis
    using
      numeric_strings_float [of "\<lparr>dtype = int64, cells = [Some (1 :: int), Some 2]\<rparr>"
        ?ch "\<lambda>xs. False" "\<lambda>i. ''?''"]
      numeric_strings_float [of "\<lparr>dtype = float64, cells = [Some (1 :: int), None]\<rparr>"
        ?ch "\<lambda>xs. False" "\<lambda>i. ''?''"]
      numeric_strings_float [of ?t ?ch "\<lambda>xs. False" "\<lambda>x. x"] num fails
    by simp
qed

text \<open>
  C4: the code at the failing input. The column \<^verbatim>\<open>["2020-01-01", None]\<close> has one
  non-missing value and two rows, so the sample size is \<open>min 50 2 = 2\<close>, the draw from
  a population of one raises \<^verbatim>\<open>ValueError\<close>, the handler swallows it, and the parser
  is never asked: the suggestion is \<open>Text\<close> for every parser and every generator.
\<close>

theorem sample_size_counts_missing_rows:
  "try_datetime choice to_datetime
     \<lparr>dtype = object, cells = [Some ''2020-01-01'', None]\<rparr> = Inl ValueError \<and>
   suggest_dtype choice to_datetime (\<lambda>x. x)
     \<lparr>dtype = object, cells = [Some ''2020-01-01'', None]\<rparr> = Inr Text"
  by (simp add: suggest_dtype_def dtype_tests try_datetime_def sample_def dropna_def
      all_numeric_def all_boolean_def category_rule_def nunique_def
      isnumeric_def is_numeric_char_def lower_def lower_char_def bool_words_def)

text \<open>\<^verbatim>\<open>nunique\<close> is the number of distinct values among the non-missing cells.\<close>

lemma nunique_card: "nunique cs = card {v. Some v \<in> set cs}"
  by (simp add: nunique_def length_remdups_card_conv set_dropna)

lemma zero_rows_not_category:
  assumes "cells s = []"
  shows "(\<exists>t. suggest_dtype choice to_datetime str_of s = Inr t) \<and>
         suggest_dtype choice to_datetime str_of s \<noteq> Inr Category"
proof (cases "dtype s")
  case object
  have "all_numeric str_of s" using assms by (simp add: all_numeric_def dropna_def)
  with object show ?thesis by (simp add: suggest_dtype_object split: sum.splits)
qed (simp_all add: suggest_dtype_def dtype_tests)

text \<open>
  C8: a column that reaches the Category rule (a text column on which the timestamp
  attempt, the numeric test and the boolean test have all failed) is suggested \<open>Category\<close>
  exactly when twenty times the number of its distinct non-missing values is less than
  its number of rows, and \<open>Text\<close> exactly when it is not. A column of zero rows is never
  suggested \<open>Category\<close> and nothing is raised on it; the threshold is a product, nothing
  is divided.
\<close>

theorem category_rule_threshold:
  "(dtype s = object \<and> isl (try_datetime choice to_datetime s) \<and>
      \<not> all_numeric str_of s \<and> \<not> all_boolean str_of s \<longrightarrow>
      (suggest_dtype choice to_datetime str_of s = Inr Category
         \<longleftrightarrow> 20 * card {v. Some v \<in> set (cells s)} < length (cells s)) \<and>
      (suggest_dtype choice to_datetime str_of s = Inr Text
         \<longleftrightarrow> length (cells s) \<le> 20 * card {v. Some v \<in> set (cells s)})) \<and>
   (cells s = [] \<longrightarrow>
      (\<exists>t. suggest_dtype choice to_datetime str_of s = Inr t) \<and>
      suggest_dtype choice to_datetime str_of s \<noteq> Inr Category)"
proof (intro conjI impI)
  assume h: "dtype s = object \<and> isl (try_datetime choice to_datetime s) \<and>
      \<not> all_numeric str_of s \<and> \<not> all_boolean str_of s"
  then have sd: "suggest_dtype choice to_datetime str_of s =
      (if 20 * card {v. Some v \<in> set (cells s)} < length (cells s)
       then Inr Category else Inr Text)"
    by (auto simp add: suggest_dtype_object category_rule_def nunique_card split: sum.splits)
  show "suggest_dtype choice to_datetime str_of s = Inr Category
         \<longleftrightarrow> 20 * card {v. Some v \<in> set (cells s)} < length (cells s)"
    by (simp add: sd)
  show "suggest_dtype choice to_datetime str_of s = Inr Text
         \<longleftrightarrow> length (cells s) \<le> 20 * card {v. Some v \<in> set (cells s)}"
    by (auto simp add: sd)
next
  assume "cells s = []"
  from zero_rows_not_category [OF this]
  show "\<exists>t. suggest_dtype choice to_datetime str_of s = Inr t"
    and "suggest_dtype choice to_datetime str_of s \<noteq> Inr Category" by blast+
qed

theorem category_rule_threshold_witness:
  "suggest_dtype (\<lambda>m n. [0..<n]) (\<lambda>xs. False) (\<lambda>x. x)
     \<lparr>dtype = object, cells = replicate 40 (Some ''red'') @ [Some ''blue'']\<rparr> = Inr Category \<and>
   suggest_dtype (\<lambda>m n. [0..<n]) (\<lambda>xs. False) (\<lambda>x. x)
     \<lparr>dtype = object, cells = replicate 39 (Some ''red'') @ [Some ''blue'']\<rparr> = Inr Text \<and>
   suggest_dtype (\<lambda>m n. [0..<n]) (\<lambda>xs. False) (\<lambda>x. x)
     \<lparr>dtype = object, cells = [] :: string option list\<rparr> \<noteq> Inr Category"
proof -
  let ?ch = "\<lambda>(m :: nat) n. [0..<n]"
  let ?p = "\<lambda>xs :: string list. False"
  let ?s = "\<lparr>dtype = object, cells = replicate 40 (Some ''red'') @ [Some ''blue'']\<rparr>"
  let ?t = "\<lparr>dtype = object, cells = replicate 39 (Some ''red'') @ [Some ''blue'']\<rparr>"
  let ?e = "\<lparr>dtype = object, cells = [] :: string option list\<rparr>"
  have s: "dtype ?s = object" "isl (try_datetime ?ch ?p ?s)"
    "\<not> all_numeric (\<lambda>x. x) ?s" "\<not> all_boolean (\<lambda>x. x) ?s"
    by simp code_simp+
  have t: "dtype ?t = object" "isl (try_datetime ?ch ?p ?t)"
    "\<not> all_numeric (\<lambda>x. x) ?t" "\<not> all_boolean (\<lambda>x. x) ?t"
    by simp code_simp+
  have "{v. Some v \<in> set (cells ?s)} = {''red'', ''blue''}" by auto
  then have cs: "card {v. Some v \<in> set (cells ?s)} = 2" by simp
  have "{v. Some v \<in> set (cells ?t)} = {''red'', ''blue''}" by auto
  then have ct: "card {v. Some v \<in> set (cells ?t)} = 2" by simp
  from category_rule_threshold [of ?s ?ch ?p "\<lambda>x. x"] s cs
  have a: "suggest_dtype ?ch ?p (\<lambda>x. x) ?s = Inr Category" by simp
  from category_rule_threshold [of ?t ?ch ?p "\<lambda>x. x"] t ct
  have b: "suggest_dtype ?ch ?p (\<lambda>x. x) ?t = Inr Text" by simp
  from category_rule_threshold [of ?e ?ch ?p "\<lambda>x. x"]
  have c: "suggest_dtype ?ch ?p (\<lambda>x. x) ?e \<noteq> Inr Category" by simp
  from a b c show ?thesis by blast
qed


text \<open>
  C9, as stated, fails twice. The suggestion is not a function of the non-missing
  values: under one generator and one parser the column \<^verbatim>\<open>["a"]\<close> is \<open>Text\<close> and the
  column \<^verbatim>\<open>["a"]\<close> followed by twenty missing cells is \<open>Category\<close>, the threshold being
  taken of all rows. And the code fixes no seed: on fifty dates followed by \<^verbatim>\<open>"n/a"\<close>
  a draw of the first fifty positions gives \<open>Timestamp\<close> and a draw of the last fifty gives
  \<open>Category\<close>.
\<close>

theorem determinism_counterexample:
  "suggest_dtype (\<lambda>m n. [0..<n]) (\<lambda>xs. False) (\<lambda>x. x)
     \<lparr>dtype = object, cells = [Some ''a'']\<rparr> \<noteq>
   suggest_dtype (\<lambda>m n. [0..<n]) (\<lambda>xs. False) (\<lambda>x. x)
     \<lparr>dtype = object, cells = Some ''a'' # replicate 20 None\<rparr> \<and>
   suggest_dtype (\<lambda>m n. [0..<n]) (list_all (\<lambda>x. x = ''2020-01-01'')) (\<lambda>x. x)
     \<lparr>dtype = object, cells = replicate 50 (Some ''2020-01-01'') @ [Some ''n/a'']\<rparr> \<noteq>
   suggest_dtype (\<lambda>m n. [m - n..<m]) (list_all (\<lambda>x. x = ''2020-01-01'')) (\<lambda>x. x)
     \<lparr>dtype = object, cells = replicate 50 (Some ''2020-01-01'') @ [Some ''n/a'']\<rparr>"
  by code_simp


lemma same_draw_same_type:
  "choice1 (length (dropna (cells s))) (min 50 (length (cells s))) =
   choice2 (length (dropna (cells s))) (min 50 (length (cells s))) \<Longrightarrow>
   suggest_dtype choice1 to_datetime str_of s = suggest_dtype choice2 to_datetime str_of s"
  by (simp add: suggest_dtype_def try_datetime_def sample_def)

lemma short_column_any_seed:
  assumes ok: "choice_ok choice1" "choice_ok choice2"
    and short: "length (cells s) \<le> 50"
    and elementwise: "\<forall>xs. to_datetime xs = list_all parses xs"
  shows "suggest_dtype choice1 to_datetime str_of s = suggest_dtype choice2 to_datetime str_of s"
proof (cases "has_null (cells s)")
  case True
  with short have "length (dropna (cells s)) < min 50 (length (cells s))"
    by (simp add: length_dropna_missing)
  then have "try_datetime choice1 to_datetime s = Inl ValueError"
    "try_datetime choice2 to_datetime s = Inl ValueError"
    by (simp_all add: try_datetime_def sample_def)
  then show ?thesis by (simp add: suggest_dtype_def)
next
  case False
  let ?xs = "dropna (cells s)"
  from False short have n: "min 50 (length (cells s)) = length ?xs"
    by (simp add: dropna_all_present)
  have draw: "to_datetime (map (\<lambda>i. ?xs ! i) (choice (length ?xs) (length ?xs))) =
      list_all parses ?xs" if "choice_ok choice" for choice
    using full_draw_set [OF that, of ?xs] elementwise by (simp add: list_all_iff)
  have "try_datetime choice to_datetime s =
      (if list_all parses ?xs
       then Inr (map (\<lambda>i. ?xs ! i) (choice (length ?xs) (length ?xs))) else Inl ParserError)"
    if "choice_ok choice" for choice
    using draw [OF that] by (simp add: try_datetime_def sample_def n)
  from this [OF ok(1)] this [OF ok(2)] show ?thesis by (simp add: suggest_dtype_def)
qed

text \<open>
  C9, amended: the suggestion is determined by the whole column (its dtype and all its
  cells, the missing ones included) and by the positions the generator draws: two
  invocations on the same column whose generators draw the same positions return the
  same result. For a column of at most fifty rows and a parser that judges the values
  one by one, every two well-behaved generators give the same result, whatever they
  draw.
\<close>

theorem suggest_dtype_deterministic:
  "(choice1 (length (dropna (cells s))) (min 50 (length (cells s))) =
    choice2 (length (dropna (cells s))) (min 50 (length (cells s))) \<longrightarrow>
      suggest_dtype choice1 to_datetime str_of s = suggest_dtype choice2 to_datetime str_of s) \<and>
   (choice_ok choice1 \<and> choice_ok choice2 \<and> length (cells s) \<le> 50 \<and>
    (\<forall>xs. to_datetime xs = list_all parses xs) \<longrightarrow>
      suggest_dtype choice1 to_datetime str_of s = suggest_dtype choice2 to_datetime str_of s)"
  using same_draw_same_type [of choice1 s choice2 to_datetime str_of]
    short_column_any_seed [of choice1 choice2 s to_datetime parses str_of]
  by blast

text \<open>Two well-behaved generators: the first positions, and the last.\<close>

lemma choice_ok_first: "choice_ok (\<lambda>m n. [0..<n])"
  by (simp add: choice_ok_def)

lemma choice_ok_last: "choice_ok (\<lambda>m n. [m - n..<m])"
  by (simp add: choice_ok_def)

theorem suggest_dtype_deterministic_witness:
  "suggest_dtype (\<lambda>m n. [0..<n]) (list_all (\<lambda>x. x \<noteq> ''n/a'')) (\<lambda>x. x)
     \<lparr>dtype = object, cells = [Some ''2020-01-01'', Some ''n/a'', Some ''2020-02-01'']\<rparr> =
   suggest_dtype (\<lambda>m n. rev [m - n..<m]) (list_all (\<lambda>x. x \<noteq> ''n/a'')) (\<lambda>x. x)
     \<lparr>dtype = object, cells = [Some ''2020-01-01'', Some ''n/a'', Some ''2020-02-01'']\<rparr> \<and>
   suggest_dtype (\<lambda>m n. [0..<n]) (list_all (\<lambda>x. x \<noteq> ''n/a'')) (\<lambda>x. x)
     \<lparr>dtype = object, cells = replicate 60 (Some ''2020-01-01'')\<rparr> =
   suggest_dtype (\<lambda>m n. if m = 60 then [0..<n] else [m - n..<m]) (list_all (\<lambda>x. x \<noteq> ''n/a'')) (\<lambda>x. x)
     \<lparr>dtype = object, cells = replicate 60 (Some ''2020-01-01'')\<rparr>"
proof -
  let ?p = "list_all (\<lambda>x. x \<noteq> ''n/a'')"
  let ?s = "\<lparr>dtype = object, cells = [Some ''2020-01-01'', Some ''n/a'', Some ''2020-02-01'']\<rparr>"
  let ?l = "\<lparr>dtype = object, cells = replicate 60 (Some ''2020-01-01'')\<rparr>"
  have ok: "choice_ok (\<lambda>m n. [0..<n])" "choice_ok (\<lambda>m n. rev [m - n..<m])"
    by (simp_all add: choice_ok_def)
  have short: "length (cells ?s) \<le> 50" by simp
  have el: "\<forall>xs. ?p xs = list_all (\<lambda>x. x \<noteq> ''n/a'') xs" by simp
  from suggest_dtype_deterministic [of "\<lambda>m n. [0..<n]" ?s "\<lambda>m n. rev [m - n..<m]" ?p "\<lambda>x. x" "\<lambda>x. x \<noteq> ''n/a''"]
    ok short el
  have a: "suggest_dtype (\<lambda>m n. [0..<n]) ?p (\<lambda>x. x) ?s =
      suggest_dtype (\<lambda>m n. rev [m - n..<m]) ?p (\<lambda>x. x) ?s" by blast
  have len: "length (dropna (cells ?l)) = 60" by (simp add: dropna_all_present has_null_def)
  from suggest_dtype_deterministic [of "\<lambda>m n. [0..<n]" ?l "\<lambda>m n. if m = 60 then [0..<n] else [m - n..<m]" ?p "\<lambda>x. x"] len
  have b: "suggest_dtype (\<lambda>m n. [0..<n]) ?p (\<lambda>x. x) ?l =
      suggest_dtype (\<lambda>m n. if m = 60 then [0..<n] else [m - n..<m]) ?p (\<lambda>x. x) ?l" by simp
  from a b show ?thesis by blast
qed

section \<open>Properties of the cleaning steps\<close>

subsection \<open>The mode of a column\<close>

lemma fold_max_upper: "y \<in> set ys \<Longrightarrow> y \<le> fold max ys (a :: nat)"
  using Max.set_eq_fold [of a ys] by (metis List.finite_set Max_ge list.set_intros(2))

lemma fold_max_in: "fold max ys (a :: nat) \<in> set (a # ys)"
  using Max.set_eq_fold [of a ys] by (metis List.finite_set Max_in list.distinct(1) set_empty)

lemma count_list_pos: "v \<in> set xs \<Longrightarrow> 0 < count_list xs v"
  by (simp add: count_list_0_iff zero_less_iff_neq_zero)

lemma mode_set:
  "set (mode xs) = {v \<in> set xs. count_list xs v = fold max (map (count_list xs) xs) 0}"
  by (auto simp add: mode_def Let_def)

lemma mode_nonempty:
  assumes "xs \<noteq> []"
  shows "mode xs \<noteq> []"
proof -
  let ?top = "fold max (map (count_list xs) xs) 0"
  obtain x where x: "x \<in> set xs" using assms by (cases xs) auto
  have "count_list xs x \<le> ?top" using x by (intro fold_max_upper) simp
  with count_list_pos [OF x] have "?top \<noteq> 0" by simp
  with fold_max_in [of "map (count_list xs) xs" 0]
  obtain v where "v \<in> set xs" "count_list xs v = ?top" by auto
  then have "v \<in> set (mode xs)" by (simp add: mode_set)
  then show ?thesis by auto
qed

lemma mode_most_frequent:
  assumes "m \<in> set (mode xs)"
  shows "m \<in> set xs \<and> (\<forall>v. count_list xs v \<le> count_list xs m)"
proof -
  let ?top = "fold max (map (count_list xs) xs) 0"
  from assms have m: "m \<in> set xs" "count_list xs m = ?top" by (simp_all add: mode_set)
  have "count_list xs v \<le> ?top" for v
  proof (cases "v \<in> set xs")
    case True
    then show ?thesis by (intro fold_max_upper) simp
  next
    case False
    then show ?thesis by (simp add: count_list_0_iff)
  qed
  with m show ?thesis by simp
qed

lemma fillna_no_null: "\<not> has_null cs \<Longrightarrow> fillna w cs = cs"
  by (induction cs) (auto simp add: fillna_def has_null_def split: option.splits)

lemma count_dropna: "count_list (dropna cs) v = count_list cs (Some v)"
  by (induction cs) (auto simp add: dropna_def)

lemma dropna_leading_missing: "dropna (replicate k None @ Some v # rest) = v # dropna rest"
  by (simp add: dropna_def)

text \<open>What the mode step does to the cells of one column.\<close>

lemma fill_mode_col_cells:
  "((\<exists>v. Some v \<in> set (cells s)) \<longrightarrow>
      (\<exists>m. Some m \<in> set (cells s) \<and>
         (\<forall>v. count_list (cells s) (Some v) \<le> count_list (cells s) (Some m)) \<and>
         cells (fill_mode_col lib s) =
           map (\<lambda>c. case c of None \<Rightarrow> Some m | Some x \<Rightarrow> Some x) (cells s))) \<and>
   (set (cells s) \<subseteq> {None} \<longrightarrow> cells (fill_mode_col lib s) = cells s)"
proof (intro conjI impI)
  assume "\<exists>v. Some v \<in> set (cells s)"
  then have ne: "dropna (cells s) \<noteq> []" using set_dropna [of "cells s"] by auto
  then obtain m ms where mm: "mode (dropna (cells s)) = m # ms"
    using mode_nonempty [OF ne] by (cases "mode (dropna (cells s))") auto
  then have "m \<in> set (mode (dropna (cells s)))" by simp
  from mode_most_frequent [OF this]
  have m: "Some m \<in> set (cells s)"
    "\<forall>v. count_list (cells s) (Some v) \<le> count_list (cells s) (Some m)"
    by (simp_all add: set_dropna count_dropna)
  have "cells (fill_mode_col lib s) = fillna (Some m) (cells s)"
    by (simp add: fill_mode_col_def first_mode_def mm filled_def fillna_no_null)
  with m show "\<exists>m. Some m \<in> set (cells s) \<and>
         (\<forall>v. count_list (cells s) (Some v) \<le> count_list (cells s) (Some m)) \<and>
         cells (fill_mode_col lib s) =
           map (\<lambda>c. case c of None \<Rightarrow> Some m | Some x \<Rightarrow> Some x) (cells s)"
    unfolding fillna_def by blast
next
  assume "set (cells s) \<subseteq> {None}"
  then have "dropna (cells s) = []" by (rule dropna_all_missing)
  then show "cells (fill_mode_col lib s) = cells s"
    by (simp add: fill_mode_col_def first_mode_def mode_def)
qed

text \<open>
  C7: "Fill with column mode" keeps the columns and their labels, and in every column
  with at least one non-missing value every missing cell becomes one value \<open>m\<close> of the
  column that no value of the column occurs more often than, the other cells being
  kept; a column with zero non-missing values comes back as it was (\<^verbatim>\<open>mode()[0]\<close>
  raises, the handler passes).
\<close>

theorem fill_mode_most_frequent:
  assumes "i < length df"
  shows
  "length (apply_null lib FillMode df) = length df \<and>
   fst (apply_null lib FillMode df ! i) = fst (df ! i) \<and>
   ((\<exists>v. Some v \<in> set (cells (snd (df ! i)))) \<longrightarrow>
      (\<exists>m. Some m \<in> set (cells (snd (df ! i))) \<and>
         (\<forall>v. count_list (cells (snd (df ! i))) (Some v)
                \<le> count_list (cells (snd (df ! i))) (Some m)) \<and>
         cells (snd (apply_null lib FillMode df ! i)) =
           map (\<lambda>c. case c of None \<Rightarrow> Some m | Some x \<Rightarrow> Some x) (cells (snd (df ! i))))) \<and>
   (set (cells (snd (df ! i))) \<subseteq> {None} \<longrightarrow>
      cells (snd (apply_null lib FillMode df ! i)) = cells (snd (df ! i)))"
proof -
  have out: "apply_null lib FillMode df ! i = (fst (df ! i), fill_mode_col lib (snd (df ! i)))"
    using assms by (simp add: apply_null_def map_columns_def)
  show ?thesis
    using fill_mode_col_cells [of "snd (df ! i)" lib]
    by (simp add: out) (simp add: apply_null_def map_columns_def)
qed

theorem fill_mode_most_frequent_witness:
  "cells (snd (apply_null
      \<lparr>mean = (\<lambda>xs. None), median = (\<lambda>xs. None), construct = (\<lambda>v t. Inl ValueError),
       raw_text = (\<lambda>t. 0), dtype_after_fill = (\<lambda>d cs. d)\<rparr> FillMode
      [(''n'', \<lparr>dtype = float64, cells = [Some 3, None, Some 1, Some 1 :: nat option]\<rparr>),
       (''e'', \<lparr>dtype = float64, cells = [None, None, None, None]\<rparr>)] ! 0))
     = [Some 3, Some 1, Some 1, Some 1] \<and>
   cells (snd (apply_null
      \<lparr>mean = (\<lambda>xs. None), median = (\<lambda>xs. None), construct = (\<lambda>v t. Inl ValueError),
       raw_text = (\<lambda>t. 0), dtype_after_fill = (\<lambda>d cs. d)\<rparr> FillMode
      [(''n'', \<lparr>dtype = float64, cells = [Some 3, None, Some 1, Some 1 :: nat option]\<rparr>),
       (''e'', \<lparr>dtype = float64, cells = [None, None, None, None]\<rparr>)] ! 1))
     = [None, None, None, None]"
proof -
  let ?lib = "\<lparr>mean = (\<lambda>xs :: nat list. None), median = (\<lambda>xs. None),
       construct = (\<lambda>v t. Inl ValueError),
       raw_text = (\<lambda>t. 0), dtype_after_fill = (\<lambda>d cs. d)\<rparr>"
  let ?cs = "[Some 3, None, Some 1, Some 1 :: nat option]"
  let ?df = "[(''n'', \<lparr>dtype = float64, cells = ?cs\<rparr>),
       (''e'', \<lparr>dtype = float64, cells = [None, None, None, None]\<rparr>)]"
  from fill_mode_most_frequent [of 0 ?df ?lib] obtain m where
    m: "Some m \<in> set ?cs" "\<forall>v. count_list ?cs (Some v) \<le> count_list ?cs (Some m)"
      "cells (snd (apply_null ?lib FillMode ?df ! 0)) =
        map (\<lambda>c. case c of None \<Rightarrow> Some m | Some x \<Rightarrow> Some x) ?cs"
    by auto
  from m(2) have "count_list ?cs (Some 1) \<le> count_list ?cs (Some m)" by blast
  with m(1) have "m = 1" by auto
  with m(3) have a: "cells (snd (apply_null ?lib FillMode ?df ! 0)) = [Some 3, Some 1, Some 1, Some 1]"
    by simp
  from fill_mode_most_frequent [of 1 ?df ?lib]
  have b: "cells (snd (apply_null ?lib FillMode ?df ! 1)) = [None, None, None, None]" by simp
  from a b show ?thesis by blast
qed

subsection \<open>The custom fill\<close>

text \<open>What the custom fill does to the cells of one column.\<close>

lemma custom_fill_col_cells:
  "(\<forall>k v rest w. cells s = replicate k None @ Some v # rest \<and> construct lib v text = Inr w \<longrightarrow>
      cells (custom_fill_col lib text s) =
        map (\<lambda>c. case c of None \<Rightarrow> w | Some x \<Rightarrow> Some x) (cells s)) \<and>
   (\<forall>k v rest e. cells s = replicate k None @ Some v # rest \<and> construct lib v text = Inl e \<longrightarrow>
      cells (custom_fill_col lib text s) =
        map (\<lambda>c. case c of None \<Rightarrow> Some (raw_text lib text) | Some x \<Rightarrow> Some x) (cells s)) \<and>
   (set (cells s) \<subseteq> {None} \<longrightarrow>
      cells (custom_fill_col lib text s) = map (\<lambda>c. Some (raw_text lib text)) (cells s))"
proof (intro conjI allI impI)
  fix k v rest w
  assume "cells s = replicate k None @ Some v # rest \<and> construct lib v text = Inr w"
  then have "first_valid (cells s) = Inr v" "construct lib v text = Inr w"
    by (simp_all add: first_valid_def dropna_leading_missing)
  then show "cells (custom_fill_col lib text s) =
        map (\<lambda>c. case c of None \<Rightarrow> w | Some x \<Rightarrow> Some x) (cells s)"
    by (simp add: custom_fill_col_def filled_def fillna_def)
next
  fix k v rest e
  assume "cells s = replicate k None @ Some v # rest \<and> construct lib v text = Inl e"
  then have "first_valid (cells s) = Inr v" "construct lib v text = Inl e"
    by (simp_all add: first_valid_def dropna_leading_missing)
  then show "cells (custom_fill_col lib text s) =
        map (\<lambda>c. case c of None \<Rightarrow> Some (raw_text lib text) | Some x \<Rightarrow> Some x) (cells s)"
    by (simp add: custom_fill_col_def filled_def fillna_def)
next
  assume a: "set (cells s) \<subseteq> {None}"
  then have "first_valid (cells s) = Inl IndexError"
    by (simp add: first_valid_def dropna_all_missing)
  then have "cells (custom_fill_col lib text s) = fillna (Some (raw_text lib text)) (cells s)"
    by (simp add: custom_fill_col_def filled_def)
  also have "\<dots> = map (\<lambda>c. Some (raw_text lib text)) (cells s)"
    using a by (auto simp add: fillna_def split: option.splits)
  finally show "cells (custom_fill_col lib text s) = map (\<lambda>c. Some (raw_text lib text)) (cells s)" .
qed

text \<open>
  C6: "Custom fill per column", once applied, keeps the columns and their labels, and in
  every column that has a missing cell and a typed text: when the constructor of the
  first non-missing value \<open>v\<close> accepts the text, every missing cell becomes the value it
  returns; when that constructor raises, every missing cell becomes the typed text
  itself; and when the column has no non-missing value at all (\<^verbatim>\<open>iloc[0]\<close> raises
  \<^verbatim>\<open>IndexError\<close>), every cell becomes the typed text. The other cells are kept. Every
  exception of the \<^verbatim>\<open>try\<close> is taken by its handler: each case ends in a column.
\<close>

theorem custom_fill_coerces_or_stores_text:
  assumes "i < length df" "None \<in> set (cells (snd (df ! i)))" "typed (fst (df ! i)) \<noteq> []"
  shows
  "length (apply_null lib (CustomFill typed True) df) = length df \<and>
   fst (apply_null lib (CustomFill typed True) df ! i) = fst (df ! i) \<and>
   (\<forall>k v rest w. cells (snd (df ! i)) = replicate k None @ Some v # rest \<and>
        construct lib v (typed (fst (df ! i))) = Inr w \<longrightarrow>
      cells (snd (apply_null lib (CustomFill typed True) df ! i)) =
        map (\<lambda>c. case c of None \<Rightarrow> w | Some x \<Rightarrow> Some x) (cells (snd (df ! i)))) \<and>
   (\<forall>k v rest e. cells (snd (df ! i)) = replicate k None @ Some v # rest \<and>
        construct lib v (typed (fst (df ! i))) = Inl e \<longrightarrow>
      cells (snd (apply_null lib (CustomFill typed True) df ! i)) =
        map (\<lambda>c. case c of None \<Rightarrow> Some (raw_text lib (typed (fst (df ! i)))) | Some x \<Rightarrow> Some x)
          (cells (snd (df ! i)))) \<and>
   (set (cells (snd (df ! i))) \<subseteq> {None} \<longrightarrow>
      cells (snd (apply_null lib (CustomFill typed True) df ! i)) =
        map (\<lambda>c. Some (raw_text lib (typed (fst (df ! i))))) (cells (snd (df ! i))))"
proof -
  have out: "apply_null lib (CustomFill typed True) df ! i =
      (fst (df ! i), custom_fill_col lib (typed (fst (df ! i))) (snd (df ! i)))"
    using assms by (simp add: apply_null_def has_null_def)
  have len: "length (apply_null lib (CustomFill typed True) df) = length df"
    by (simp add: apply_null_def)
  show ?thesis
    using custom_fill_col_cells [of "snd (df ! i)" lib "typed (fst (df ! i))"]
    unfolding out len by simp
qed

text \<open>
  In the witness the constructor reads \<^verbatim>\<open>"007"\<close> as the number seven and refuses any
  other text, so that a coerced value differs from the text as typed.
\<close>

theorem custom_fill_coerces_or_stores_text_witness:
  "cells (snd (apply_null
      \<lparr>mean = (\<lambda>xs. None), median = (\<lambda>xs. None),
       construct = (\<lambda>v t. if t = ''007'' then Inr (Some ''7'') else Inl ValueError),
       raw_text = (\<lambda>t. t), dtype_after_fill = (\<lambda>d cs. object)\<rparr>
      (CustomFill (\<lambda>n. if n = ''c'' then ''abc'' else ''007'') True)
      [(''a'', \<lparr>dtype = object, cells = [None, Some ''1'', None]\<rparr>),
       (''b'', \<lparr>dtype = object, cells = [None, None, None]\<rparr>),
       (''c'', \<lparr>dtype = object, cells = [Some ''2'', None, Some ''3'']\<rparr>)] ! 0))
     = [Some ''7'', Some ''1'', Some ''7''] \<and>
   cells (snd (apply_null
      \<lparr>mean = (\<lambda>xs. None), median = (\<lambda>xs. None),
       construct = (\<lambda>v t. if t = ''007'' then Inr (Some ''7'') else Inl ValueError),
       raw_text = (\<lambda>t. t), dtype_after_fill = (\<lambda>d cs. object)\<rparr>
      (CustomFill (\<lambda>n. if n = ''c'' then ''abc'' else ''007'') True)
      [(''a'', \<lparr>dtype = object, cells = [None, Some ''1'', None]\<rparr>),
       (''b'', \<lparr>dtype = object, cells = [None, None, None]\<rparr>),
       (''c'', \<lparr>dtype = object, cells = [Some ''2'', None, Some ''3'']\<rparr>)] ! 1))
     = [Some ''007'', Some ''007'', Some ''007''] \<and>
   cells (snd (apply_null
      \<lparr>mean = (\<lambda>xs. None), median = (\<lambda>xs. None),
       construct = (\<lambda>v t. if t = ''007'' then Inr (Some ''7'') else Inl ValueError),
       raw_text = (\<lambda>t. t), dtype_after_fill = (\<lambda>d cs. object)\<rparr>
      (CustomFill (\<lambda>n. if n = ''c'' then ''abc'' else ''007'') True)
      [(''a'', \<lparr>dtype = object, cells = [None, Some ''1'', None]\<rparr>),
       (''b'', \<lparr>dtype = object, cells = [None, None, None]\<rparr>),
       (''c'', \<lparr>dtype = object, cells = [Some ''2'', None, Some ''3'']\<rparr>)] ! 2))
     = [Some ''2'', Some ''abc'', Some ''3'']"
proof -
  let ?lib = "\<lparr>mean = (\<lambda>xs :: string list. None), median = (\<lambda>xs. None),
       construct = (\<lambda>v t. if t = ''007'' then Inr (Some ''7'') else Inl ValueError),
       raw_text = (\<lambda>t. t), dtype_after_fill = (\<lambda>d cs. object)\<rparr>"
  let ?typed = "\<lambda>n. if n = ''c'' then ''abc'' else ''007''"
  let ?df = "[(''a'', \<lparr>dtype = object, cells = [None, Some ''1'', None]\<rparr>),
       (''b'', \<lparr>dtype = object, cells = [None, None, None]\<rparr>),
       (''c'', \<lparr>dtype = object, cells = [Some ''2'', None, Some ''3'']\<rparr>)]"
  have a0: "cells (snd (?df ! 0)) = replicate 1 None @ Some ''1'' # [None]" by simp
  have a1: "construct ?lib ''1'' (?typed (fst (?df ! 0))) = Inr (Some ''7'')" by simp
  have c0: "cells (snd (?df ! 2)) = replicate 0 None @ Some ''2'' # [None, Some ''3'']" by simp
  have c1: "construct ?lib ''2'' (?typed (fst (?df ! 2))) = Inl ValueError" by simp
  have "0 < length ?df" "None \<in> set (cells (snd (?df ! 0)))" "?typed (fst (?df ! 0)) \<noteq> []"
    by simp_all
  from custom_fill_coerces_or_stores_text [of 0 ?df ?typed ?lib, OF this] a0 a1
  have a: "cells (snd (apply_null ?lib (CustomFill ?typed True) ?df ! 0)) =
      map (\<lambda>c. case c of None \<Rightarrow> Some ''7'' | Some x \<Rightarrow> Some x) (cells (snd (?df ! 0)))"
    by blast
  have "1 < length ?df" "None \<in> set (cells (snd (?df ! 1)))" "?typed (fst (?df ! 1)) \<noteq> []"
    by simp_all
  from custom_fill_coerces_or_stores_text [of 1 ?df ?typed ?lib, OF this]
  have b: "cells (snd (apply_null ?lib (CustomFill ?typed True) ?df ! 1)) =
      map (\<lambda>c. Some (raw_text ?lib (?typed (fst (?df ! 1))))) (cells (snd (?df ! 1)))"
    by simp
  have "2 < length ?df" "None \<in> set (cells (snd (?df ! 2)))" "?typed (fst (?df ! 2)) \<noteq> []"
    by simp_all
  from custom_fill_coerces_or_stores_text [of 2 ?df ?typed ?lib, OF this] c0 c1
  have c: "cells (snd (apply_null ?lib (CustomFill ?typed True) ?df ! 2)) =
      map (\<lambda>c. case c of None \<Rightarrow> Some (raw_text ?lib (?typed (fst (?df ! 2)))) | Some x \<Rightarrow> Some x)
        (cells (snd (?df ! 2)))"
    by blast
  from a b c show ?thesis by simp
qed

subsection \<open>Duplicates\<close>

lemma row_take_rows: "k < length idxs \<Longrightarrow> row (take_rows idxs df) k = row df (idxs ! k)"
  by (simp add: row_def take_rows_def)

lemma nrows_take_rows: "df \<noteq> [] \<Longrightarrow> nrows (take_rows idxs df) = length idxs"
  by (cases df) (simp_all add: nrows_def take_rows_def)

lemma rows_take_rows: "df \<noteq> [] \<Longrightarrow> rows (take_rows idxs df) = map (row df) idxs"
  by (auto simp add: rows_def nrows_take_rows row_take_rows intro!: nth_equalityI)

lemma rows_Nil: "rows (take_rows idxs []) = []"
  by (simp add: rows_def nrows_def take_rows_def)

lemma distinct_drop_duplicates_first: "distinct (rows (drop_duplicates_first None df))"
proof (cases "df = []")
  case True
  then show ?thesis by (simp add: drop_duplicates_first_def rows_Nil)
next
  case False
  let ?idxs = "filter (\<lambda>i. \<forall>j \<in> set [0..<i]. row df j \<noteq> row df i) [0..<nrows df]"
  have "inj_on (row df) (set ?idxs)"
  proof (rule inj_onI)
    fix i k assume "i \<in> set ?idxs" "k \<in> set ?idxs" "row df i = row df k"
    then show "i = k" by (cases i k rule: linorder_cases) auto
  qed
  then have "distinct (map (row df) ?idxs)" by (simp add: distinct_map)
  with False show ?thesis
    by (simp add: drop_duplicates_first_def compared_def rows_take_rows)
qed

lemma distinct_drop_duplicates_last: "distinct (rows (drop_duplicates_last None df))"
proof (cases "df = []")
  case True
  then show ?thesis by (simp add: drop_duplicates_last_def rows_Nil)
next
  case False
  let ?idxs = "filter (\<lambda>i. \<forall>j \<in> set [Suc i..<nrows df]. row df j \<noteq> row df i) [0..<nrows df]"
  have "inj_on (row df) (set ?idxs)"
  proof (rule inj_onI)
    fix i k assume "i \<in> set ?idxs" "k \<in> set ?idxs" "row df i = row df k"
    then show "i = k" by (cases i k rule: linorder_cases) auto
  qed
  then have "distinct (map (row df) ?idxs)" by (simp add: distinct_map)
  with False show ?thesis
    by (simp add: drop_duplicates_last_def compared_def rows_take_rows)
qed

text \<open>
  C10: with the subset strategy and no column selected, the guard \<^verbatim>\<open>if subset_cols:\<close>
  skips the call of \<^verbatim>\<open>drop_duplicates\<close>: the duplicate step returns the frame as it is,
  and the cleaning step returns what the null handling produced.
\<close>

theorem empty_subset_leaves_frame:
  "apply_dup (DropOnSubset []) df = df \<and>
   clean lib ns (DropOnSubset []) df = apply_null lib ns df"
  by (simp add: apply_dup_def clean_def)

theorem empty_subset_leaves_frame_witness:
  "apply_dup (DropOnSubset [])
     [(''a'', \<lparr>dtype = object, cells = [Some ''x'', None, Some ''x'']\<rparr>)] =
     [(''a'', \<lparr>dtype = object, cells = [Some ''x'', None, Some ''x'']\<rparr>)]"
  using empty_subset_leaves_frame [of "[(''a'', \<lparr>dtype = object, cells = [Some ''x'', None, Some ''x'']\<rparr>)]"]
  by simp


text \<open>
  C3, as stated, fails on test_code2.py, which drops the duplicates before it handles
  the nulls. On the one-column frame \<^verbatim>\<open>["x", None, "x"]\<close> with "Drop Duplicates" and
  "Forward Fill" it returns \<^verbatim>\<open>["x", "x"]\<close>, while deduplication of the forward-filled
  frame is \<^verbatim>\<open>["x"]\<close>.
\<close>

theorem duplicates_first_counterexample:
  "clean2
     \<lparr>mean = (\<lambda>xs. None), median = (\<lambda>xs. None),
      construct = (\<lambda>v t. Inr (Some t)), raw_text = (\<lambda>t. t),
      dtype_after_fill = (\<lambda>d cs. d)\<rparr>
     DropDuplicates ForwardFill2
     [(''a'', \<lparr>dtype = object, cells = [Some ''x'', None, Some ''x'']\<rparr>)] \<noteq>
   drop_duplicates_first None
     (apply_null
        \<lparr>mean = (\<lambda>xs. None), median = (\<lambda>xs. None),
         construct = (\<lambda>v t. Inr (Some t)), raw_text = (\<lambda>t. t),
         dtype_after_fill = (\<lambda>d cs. d)\<rparr>
        ForwardFill
        [(''a'', \<lparr>dtype = object, cells = [Some ''x'', None, Some ''x'']\<rparr>)])"
  by code_simp

text \<open>
  C3, amended: the cleaning step of test_code4.py applies the null handling first: for
  every frame and every pair of strategies its result is the duplicate handling of the
  null-handled frame, and with "keep first" or "keep last" no two rows of the result are
  equal.
\<close>

theorem null_handling_before_duplicates:
  "clean lib ns ds df = apply_dup ds (apply_null lib ns df) \<and>
   (ds = DropKeepFirst \<or> ds = DropKeepLast \<longrightarrow> distinct (rows (clean lib ns ds df)))"
  by (auto simp add: clean_def apply_dup_def
      distinct_drop_duplicates_first distinct_drop_duplicates_last)

theorem null_handling_before_duplicates_witness:
  "distinct (rows (clean
      \<lparr>mean = (\<lambda>xs. None), median = (\<lambda>xs. None),
       construct = (\<lambda>v t. Inr (Some t)), raw_text = (\<lambda>t. t),
       dtype_after_fill = (\<lambda>d cs. d)\<rparr>
      ForwardFill DropKeepFirst
      [(''a'', \<lparr>dtype = object, cells = [Some ''x'', None, Some ''x'']\<rparr>)]))"
  using null_handling_before_duplicates [of "\<lparr>mean = (\<lambda>xs. None), median = (\<lambda>xs. None),
       construct = (\<lambda>v t. Inr (Some t)), raw_text = (\<lambda>t. t),
       dtype_after_fill = (\<lambda>d cs. d)\<rparr>" ForwardFill DropKeepFirst
      "[(''a'', \<lparr>dtype = object, cells = [Some ''x'', None, Some ''x'']\<rparr>)]"]
  by blast

section \<open>Properties of the chart loops\<close>

lemma render_charts_each:
  "k < length chart_configs \<Longrightarrow> render_charts chart_configs ! k = render_chart k (chart_configs ! k)"
  by (simp add: render_charts_def)

text \<open>
  C5, as stated, fails on piping_data.py: when the frame has no numeric column the
  select box of the histogram returns nothing, and the histogram is drawn all the same,
  with no x column and without a warning.
\<close>

theorem histogram_without_axis_counterexample:
  "plot_histogram [] 0 = PxHistogram None"
  by (simp add: plot_histogram_def selectbox_def)

text \<open>
  C5, amended: in the chart loop of test_code4.py a chart of any kind, histogram and box
  included, is drawn when both its x and its y are specified, and is skipped with the
  warning that carries its number when either is \<^verbatim>\<open>"None"\<close>; a chart that is drawn from a
  configuration built by the select boxes has an x and a y that name columns of the
  frame.
\<close>

theorem chart_rendered_iff_both_axes:
  "(x_axis c \<noteq> ''None'' \<and> y_axis c \<noteq> ''None'' \<longrightarrow>
      render_chart k c =
        Plotted (chart_type c) (x_axis c) (y_axis c)
          (if color_axis c = ''None'' then None else Some (color_axis c))) \<and>
   (x_axis c = ''None'' \<or> y_axis c = ''None'' \<longrightarrow> render_chart k c = Warned (k + 1)) \<and>
   (xi \<le> length columns \<and> yi \<le> length columns \<and>
    render_chart k (make_config columns t xi yi ci) = Plotted t' a b col \<longrightarrow>
      a \<in> set columns \<and> b \<in> set columns)"
proof (intro conjI impI)
  assume h: "xi \<le> length columns \<and> yi \<le> length columns \<and>
    render_chart k (make_config columns t xi yi ci) = Plotted t' a b col"
  then have ab: "a = (''None'' # columns) ! xi" "b = (''None'' # columns) ! yi"
    "a \<noteq> ''None''" "b \<noteq> ''None''"
    by (auto simp add: render_chart_def make_config_def split: if_splits)
  from ab(1,3) h show "a \<in> set columns" by (cases xi) auto
  from ab(2,4) h show "b \<in> set columns" by (cases yi) auto
qed (auto simp add: render_chart_def)

theorem chart_rendered_iff_both_axes_witness:
  "render_chart 0 (make_config [''age'', ''fare''] Scatter 1 2 0) =
     Plotted Scatter ''age'' ''fare'' None \<and>
   render_chart 1 (make_config [''age'', ''fare''] Histogram 1 0 0) = Warned 2 \<and>
   ''age'' \<in> set [''age'', ''fare''] \<and> ''fare'' \<in> set [''age'', ''fare'']"
proof -
  let ?c = "make_config [''age'', ''fare''] Scatter 1 2 0"
  let ?h = "make_config [''age'', ''fare''] Histogram 1 0 0"
  have c: "x_axis ?c = ''age''" "y_axis ?c = ''fare''" "color_axis ?c = ''None''"
    "chart_type ?c = Scatter"
    by (simp_all add: make_config_def)
  have h: "y_axis ?h = ''None''" by (simp add: make_config_def)
  from chart_rendered_iff_both_axes [of ?c 0] c
  have 1: "render_chart 0 ?c = Plotted Scatter ''age'' ''fare'' None" by simp
  from chart_rendered_iff_both_axes [of ?h 1] h
  have 2: "render_chart 1 ?h = Warned 2" by simp
  from chart_rendered_iff_both_axes
    [of ?c 0 1 "[''age'', ''fare'']" 2 Scatter 0 Scatter "''age''" "''fare''" None] 1
  have 3: "''age'' \<in> set [''age'', ''fare''] \<and> ''fare'' \<in> set [''age'', ''fare'']"
    by simp
  from 1 2 3 show ?thesis by blast
qed

end
